theory Spec2Isabelle
  imports Main
begin

section \<open>Python values\<close>

text \<open>
  The broker handles the values that \<^verbatim>\<open>json.loads\<close> produces and the tuples it builds
  itself. The values that can be dictionary keys (None, booleans, integers, strings)
  are kept apart as \<open>scalar\<close>: indexing a dictionary with a list or a dict raises
  TypeError. JSON numbers are the integers; floating-point numbers are not modelled.
  A dict read from JSON has string keys and is kept as an association list.
\<close>

datatype scalar = SNone | SBool bool | SInt int | SStr string

datatype pyval =
    Scalar scalar
  | PList "pyval list"
  | PTuple "pyval list"
  | PDict "(string \<times> pyval) list"

abbreviation PNone :: pyval where
  "PNone \<equiv> Scalar SNone"

abbreviation PStr :: "string \<Rightarrow> pyval" where
  "PStr s \<equiv> Scalar (SStr s)"

text \<open>Truth value of an object, as \<^verbatim>\<open>x or y\<close> and \<^verbatim>\<open>if x:\<close> test it.\<close>

fun truthy :: "pyval \<Rightarrow> bool" where
  "truthy (Scalar SNone) = False"
| "truthy (Scalar (SBool b)) = b"
| "truthy (Scalar (SInt i)) = (i \<noteq> 0)"
| "truthy (Scalar (SStr s)) = (s \<noteq> [])"
| "truthy (PList xs) = (xs \<noteq> [])"
| "truthy (PTuple xs) = (xs \<noteq> [])"
| "truthy (PDict d) = (d \<noteq> [])"

text \<open>
  Dictionary keys are compared with \<^verbatim>\<open>==\<close> and \<^verbatim>\<open>hash\<close>: \<^verbatim>\<open>True\<close> and \<^verbatim>\<open>1\<close> are the
  same key, and so are \<^verbatim>\<open>False\<close> and \<^verbatim>\<open>0\<close>.
\<close>

datatype key = KNone | KInt int | KStr string

fun dict_key :: "scalar \<Rightarrow> key" where
  "dict_key SNone = KNone"
| "dict_key (SBool b) = KInt (if b then 1 else 0)"
| "dict_key (SInt i) = KInt i"
| "dict_key (SStr s) = KStr s"

text \<open>\<^verbatim>\<open>d.get(k, default)\<close> on a dict with string keys.\<close>

definition dict_get :: "(string \<times> pyval) list \<Rightarrow> string \<Rightarrow> pyval \<Rightarrow> pyval" where
  "dict_get d k dflt = (case map_of d k of None \<Rightarrow> dflt | Some v \<Rightarrow> v)"

text \<open>
  \<^verbatim>\<open>str(x)\<close>, which an f-string applies to the value in braces. The text of a list,
  tuple or dict is the library's business and is the parameter \<open>render\<close>.
\<close>

definition digit :: "nat \<Rightarrow> char" where
  "digit n = char_of (48 + n)"

fun str_nat :: "nat \<Rightarrow> string" where
  "str_nat n = (if n < 10 then [digit n] else str_nat (n div 10) @ [digit (n mod 10)])"

declare str_nat.simps [simp del]

definition str_int :: "int \<Rightarrow> string" where
  "str_int i = (if i < 0 then CHR ''-'' # str_nat (nat (- i)) else str_nat (nat i))"

fun str_scalar :: "scalar \<Rightarrow> string" where
  "str_scalar SNone = ''None''"
| "str_scalar (SBool b) = (if b then ''True'' else ''False'')"
| "str_scalar (SInt i) = str_int i"
| "str_scalar (SStr s) = s"

fun py_str :: "(pyval \<Rightarrow> string) \<Rightarrow> pyval \<Rightarrow> string" where
  "py_str render (Scalar x) = str_scalar x"
| "py_str render v = render v"

text \<open>
  The exceptions that occur. \<open>OSError\<close> stands for its subclasses as well
  (\<^verbatim>\<open>FileNotFoundError\<close>, \<^verbatim>\<open>IsADirectoryError\<close>), \<open>ConnectionError\<close> for what a write to a
  lost connection raises.
\<close>

datatype error = AttributeError | TypeError | ValueError | OSError | ConnectionError

section \<open>persistence.py\<close>

text \<open>
  A snapshot file holds one JSON document. \<^verbatim>\<open>json.dump\<close> writes a list and a tuple
  alike as an array; \<^verbatim>\<open>json.load\<close> reads an array back as a list.
\<close>

datatype json =
    JScalar scalar
  | JArr "json list"
  | JObj "(string \<times> json) list"

primrec dumps :: "pyval \<Rightarrow> json" where
  "dumps (Scalar x) = JScalar x"
| "dumps (PList xs) = JArr (map dumps xs)"
| "dumps (PTuple xs) = JArr (map dumps xs)"
| "dumps (PDict d) = JObj (map (map_prod id dumps) d)"

primrec loads :: "json \<Rightarrow> pyval" where
  "loads (JScalar x) = Scalar x"
| "loads (JArr xs) = PList (map loads xs)"
| "loads (JObj d) = PDict (map (map_prod id loads) d)"

text \<open>\<^verbatim>\<open>os.path.join(a, b)\<close> of \<^verbatim>\<open>posixpath\<close>.\<close>

definition path_join :: "string \<Rightarrow> string \<Rightarrow> string" where
  "path_join a b =
     (if b \<noteq> [] \<and> hd b = CHR ''/'' then b
      else if a = [] \<or> last a = CHR ''/'' then a @ b
      else a @ ''/'' @ b)"

text \<open>
  \<^verbatim>\<open>_topic_file(topic, mode)\<close>. The module constant \<^verbatim>\<open>DATA_DIR\<close> comes from the
  environment and is the first argument here.
\<close>

definition topic_file :: "string \<Rightarrow> string \<Rightarrow> string \<Rightarrow> string" where
  "topic_file DATA_DIR topic mode = path_join DATA_DIR (mode @ ''_'' @ topic @ ''.json'')"

text \<open>
  The file system, as far as \<^verbatim>\<open>open\<close> looks at it: the set \<open>dirs\<close> of the names that are
  existing directories, and a map from paths to the documents of the files. Opening a
  path for writing raises ValueError when the path has a null byte, and an OSError
  when the directory part of the path is no existing directory, when the path is a
  directory itself, or when its last component is empty or longer than 255 bytes.
  (Permissions and free space are taken for granted.) \<open>basename\<close> and \<open>dirname\<close> split
  a path at its last slash, as the functions of \<^verbatim>\<open>posixpath\<close> do.
\<close>

type_synonym files = "string \<rightharpoonup> json"

definition basename :: "string \<Rightarrow> string" where
  "basename p = rev (takeWhile (\<lambda>c. c \<noteq> CHR ''/'') (rev p))"

definition dirname :: "string \<Rightarrow> string" where
  "dirname p =
     (let head = rev (dropWhile (\<lambda>c. c \<noteq> CHR ''/'') (rev p))
      in if head \<noteq> [] \<and> \<not> list_all (\<lambda>c. c = CHR ''/'') head
         then rev (dropWhile (\<lambda>c. c = CHR ''/'') (rev head))
         else head)"

definition open_w :: "string set \<Rightarrow> string \<Rightarrow> error + unit" where
  "open_w dirs path =
     (if CHR 0x00 \<in> set path then Inl ValueError
      else if dirname path \<in> dirs \<and> path \<notin> dirs \<and>
              basename path \<noteq> [] \<and> length (basename path) \<le> 255
      then Inr ()
      else Inl OSError)"

text \<open>
  \<^verbatim>\<open>save_messages\<close> opens the file of the topic for writing and dumps the messages
  into it; what \<^verbatim>\<open>open\<close> raises leaves the function. \<^verbatim>\<open>load_messages\<close> returns the empty
  list when \<^verbatim>\<open>os.path.exists\<close> says no (also for a path with a null byte), and reads the
  document otherwise; a path that is a directory raises.
\<close>

definition save_messages ::
  "string \<Rightarrow> string \<Rightarrow> pyval \<Rightarrow> string \<Rightarrow> string set \<Rightarrow> files \<Rightarrow> error + files" where
  "save_messages DATA_DIR topic messages mode dirs fs =
     (let path = topic_file DATA_DIR topic mode
      in case open_w dirs path of
           Inl e \<Rightarrow> Inl e
         | Inr u \<Rightarrow> Inr (fs(path \<mapsto> dumps messages)))"

definition load_messages ::
  "string \<Rightarrow> string \<Rightarrow> string \<Rightarrow> string set \<Rightarrow> files \<Rightarrow> error + pyval" where
  "load_messages DATA_DIR topic mode dirs fs =
     (let path = topic_file DATA_DIR topic mode
      in if CHR 0x00 \<in> set path then Inr (PList [])
         else case fs path of
                Some doc \<Rightarrow> Inr (loads doc)
              | None \<Rightarrow> if path \<in> dirs then Inl OSError else Inr (PList []))"

section \<open>protocol.py\<close>

text \<open>
  \<^verbatim>\<open>parse_message\<close> decodes the bytes of one read. The decoder itself is library code:
  a read either fails to decode, with the decoder's text, or yields a value. The result
  \<open>Inl\<close> carries the text of the \<^verbatim>\<open>ProtocolError\<close> raised.
\<close>

datatype data = Undecodable string | Decoded pyval

fun parse_message :: "data \<Rightarrow> string + pyval" where
  "parse_message (Undecodable why) = Inl (''Invalid message format: '' @ why)"
| "parse_message (Decoded v) = Inr v"

text \<open>
  The dicts handed to \<^verbatim>\<open>encode_message\<close>, keys in insertion order. The argument
  \<open>message_id\<close> of \<^verbatim>\<open>make_error\<close> is \<^verbatim>\<open>None\<close> when the caller leaves it out.
\<close>

type_synonym msgdict = "(string \<times> pyval) list"

definition make_ack :: "pyval \<Rightarrow> msgdict" where
  "make_ack message_id = [(''type'', PStr ''ack''), (''message_id'', message_id)]"

definition make_error :: "string \<Rightarrow> pyval \<Rightarrow> msgdict" where
  "make_error error message_id =
     (let msg = [(''type'', PStr ''error''), (''error'', PStr error)]
      in if truthy message_id then msg @ [(''message_id'', message_id)] else msg)"

section \<open>broker.py\<close>

text \<open>
  A connection is known to the broker by its stream writer, compared by identity.
  The broker object has the four \<^verbatim>\<open>defaultdict\<close>s \<open>queues\<close>, \<open>ptp_queues\<close>,
  \<open>subscribers\<close> and \<open>ptp_consumers\<close>; a \<^verbatim>\<open>defaultdict\<close> is a total function whose value
  at a key never stored is the empty container. A queue entry is the pair
  \<^verbatim>\<open>(msg, message_id)\<close>. Around the object, the state has the name of the data
  directory, the existing directories and the files, the set \<open>broken\<close> of writers
  whose \<^verbatim>\<open>write\<close>/\<^verbatim>\<open>drain\<close> raises, the log \<open>written\<close> of every dict written, with its
  writer, in the order of the writes, and for every connection the place \<open>conn\<close> where
  its handler stands.
\<close>

type_synonym writer = nat

type_synonym entry = "pyval \<times> pyval"

datatype registry = Subscribers | Consumers

datatype conn_state = Reading | Waiting registry key | Closed

record broker =
  queues :: "key \<Rightarrow> entry list"
  ptp_queues :: "key \<Rightarrow> entry list"
  subscribers :: "key \<Rightarrow> writer list"
  ptp_consumers :: "key \<Rightarrow> writer list"
  data_dir :: string
  dirs :: "string set"
  files :: files
  broken :: "writer set"
  written :: "(writer \<times> msgdict) list"
  conn :: "writer \<Rightarrow> conn_state"

text \<open>\<^verbatim>\<open>w.write(encode_message(m)); await w.drain()\<close>: raises on a broken connection.\<close>

definition send :: "writer \<Rightarrow> msgdict \<Rightarrow> broker \<Rightarrow> error + broker" where
  "send w m s =
     (if w \<in> broken s then Inl ConnectionError
      else Inr (s\<lparr>written := written s @ [(w, m)]\<rparr>))"

text \<open>\<^verbatim>\<open>xs.remove(x)\<close>: drops the first occurrence, raises ValueError when there is none.\<close>

definition list_remove :: "'a \<Rightarrow> 'a list \<Rightarrow> error + 'a list" where
  "list_remove x xs = (if x \<in> set xs then Inr (remove1 x xs) else Inl ValueError)"

definition delivery :: "scalar \<Rightarrow> pyval \<Rightarrow> pyval \<Rightarrow> msgdict" where
  "delivery topic msg message_id =
     [(''type'', PStr ''message''), (''topic'', Scalar topic), (''message'', msg),
      (''message_id'', message_id)]"

definition entry_tuple :: "entry \<Rightarrow> pyval" where
  "entry_tuple e = PTuple [fst e, snd e]"

text \<open>
  \<^verbatim>\<open>notify_subscribers\<close>: the loop runs over a copy of the subscriber list; a failed
  write removes the subscriber from the list of the topic. The first component of the
  result is the exception that leaves the function, if any.
\<close>

fun notify_loop :: "scalar \<Rightarrow> pyval \<Rightarrow> pyval \<Rightarrow> writer list \<Rightarrow> broker \<Rightarrow> error option \<times> broker" where
  "notify_loop topic message message_id [] s = (None, s)"
| "notify_loop topic message message_id (subscriber # rest) s =
     (case send subscriber (delivery topic message message_id) s of
        Inr s' \<Rightarrow> notify_loop topic message message_id rest s'
      | Inl e \<Rightarrow>
          (case list_remove subscriber (subscribers s (dict_key topic)) of
             Inl e' \<Rightarrow> (Some e', s)
           | Inr l \<Rightarrow>
               notify_loop topic message message_id rest
                 (s\<lparr>subscribers := (subscribers s)(dict_key topic := l)\<rparr>)))"

definition notify_subscribers :: "scalar \<Rightarrow> pyval \<Rightarrow> pyval \<Rightarrow> broker \<Rightarrow> error option \<times> broker" where
  "notify_subscribers topic message message_id s =
     notify_loop topic message message_id (subscribers s (dict_key topic)) s"

text \<open>
  \<^verbatim>\<open>notify_ptp_consumer\<close>: one message to the first consumer of the queue. The write
  and the save that follows it stand in one \<^verbatim>\<open>try\<close>: whichever of the two raises, the
  \<^verbatim>\<open>except\<close> branch removes the consumer.
\<close>

definition notify_ptp_consumer :: "scalar \<Rightarrow> broker \<Rightarrow> error option \<times> broker" where
  "notify_ptp_consumer topic s =
     (case ptp_queues s (dict_key topic) of
        [] \<Rightarrow> (None, s)
      | (msg, message_id) # pending \<Rightarrow>
          (case ptp_consumers s (dict_key topic) of
             [] \<Rightarrow> (None, s)
           | consumer # others \<Rightarrow>
               (let s1 = s\<lparr>ptp_queues := (ptp_queues s)(dict_key topic := pending)\<rparr>;
                    attempt =
                      (case send consumer (delivery topic msg message_id) s1 of
                         Inl e \<Rightarrow> (Some e, s1)
                       | Inr s2 \<Rightarrow>
                           (case save_messages (data_dir s2) (str_scalar topic)
                                   (PList (map entry_tuple (ptp_queues s2 (dict_key topic))))
                                   ''queue'' (dirs s2) (files s2) of
                              Inl e \<Rightarrow> (Some e, s2)
                            | Inr fs \<Rightarrow> (None, s2\<lparr>files := fs\<rparr>)))
                in case attempt of
                     (None, s3) \<Rightarrow> (None, s3)
                   | (Some e, s3) \<Rightarrow>
                       (case list_remove consumer (ptp_consumers s3 (dict_key topic)) of
                          Inl e' \<Rightarrow> (Some e', s3)
                        | Inr l \<Rightarrow>
                            (None, s3\<lparr>ptp_consumers :=
                                       (ptp_consumers s3)(dict_key topic := l)\<rparr>)))))"

text \<open>
  The body of the request loop of \<^verbatim>\<open>handle_client\<close>, for the data of one read. The
  result says how the loop goes on: \<open>Next\<close> for the next read, \<open>Wait\<close> when the handler
  has entered the loop that sleeps while the writer is in the list of the registry,
  \<open>Raise\<close> when an exception leaves the loop. The state comes back in each case, since
  an exception undoes nothing. \<open>uuid\<close> is what \<^verbatim>\<open>generate_message_id()\<close> returns if it is
  called. The publish branch and the subscribe branch of the loop body are the
  functions \<open>handle_publish\<close> and \<open>handle_subscribe\<close>; a topic that is a list or a dict
  raises TypeError at the first dictionary access of its branch, and a save that
  raises in the publish branch leaves the loop before the acknowledgment is written.
\<close>

datatype control = Next | Wait registry key | Raise error

definition reply :: "writer \<Rightarrow> msgdict \<Rightarrow> broker \<Rightarrow> control \<times> broker" where
  "reply writer m s = (case send writer m s of Inl e \<Rightarrow> (Raise e, s) | Inr s' \<Rightarrow> (Next, s'))"

text \<open>The replay of the backlog to a new subscriber: the first failed write ends it.\<close>

fun replay :: "writer \<Rightarrow> scalar \<Rightarrow> entry list \<Rightarrow> broker \<Rightarrow> broker" where
  "replay writer topic [] s = s"
| "replay writer topic ((msg, msgid) # rest) s =
     (case send writer (delivery topic msg msgid) s of
        Inr s' \<Rightarrow> replay writer topic rest s'
      | Inl e \<Rightarrow> s)"

definition handle_publish :: "writer \<Rightarrow> pyval \<Rightarrow> msgdict \<Rightarrow> broker \<Rightarrow> control \<times> broker" where
  "handle_publish writer message_id message s =
     (let topic = dict_get message ''topic'' PNone;
          msg = dict_get message ''message'' PNone;
          mode = dict_get message ''mode'' (PStr ''pubsub'');
          r = (if mode = PStr ''pubsub'' then
                 (case topic of
                    Scalar t \<Rightarrow>
                      (let s1 = s\<lparr>queues := (queues s)
                                   (dict_key t := queues s (dict_key t) @ [(msg, message_id)])\<rparr>
                       in case notify_subscribers t msg message_id s1 of
                            (Some e, s2) \<Rightarrow> (Some e, s2)
                          | (None, s2) \<Rightarrow>
                              (case save_messages (data_dir s2) (str_scalar t)
                                      (PList (map entry_tuple (queues s2 (dict_key t))))
                                      ''pubsub'' (dirs s2) (files s2) of
                                 Inl e \<Rightarrow> (Some e, s2)
                               | Inr fs \<Rightarrow> (None, s2\<lparr>files := fs\<rparr>)))
                  | _ \<Rightarrow> (Some TypeError, s))
               else if mode = PStr ''queue'' then
                 (case topic of
                    Scalar t \<Rightarrow>
                      (let s1 = s\<lparr>ptp_queues := (ptp_queues s)
                                   (dict_key t := ptp_queues s (dict_key t) @ [(msg, message_id)])\<rparr>
                       in case notify_ptp_consumer t s1 of
                            (Some e, s2) \<Rightarrow> (Some e, s2)
                          | (None, s2) \<Rightarrow>
                              (case save_messages (data_dir s2) (str_scalar t)
                                      (PList (map entry_tuple (ptp_queues s2 (dict_key t))))
                                      ''queue'' (dirs s2) (files s2) of
                                 Inl e \<Rightarrow> (Some e, s2)
                               | Inr fs \<Rightarrow> (None, s2\<lparr>files := fs\<rparr>)))
                  | _ \<Rightarrow> (Some TypeError, s))
               else (None, s))
      in case r of
           (Some e, s') \<Rightarrow> (Raise e, s')
         | (None, s') \<Rightarrow> reply writer (make_ack message_id) s')"

definition handle_subscribe :: "writer \<Rightarrow> msgdict \<Rightarrow> broker \<Rightarrow> control \<times> broker" where
  "handle_subscribe writer message s =
     (let topic = dict_get message ''topic'' PNone;
          mode = dict_get message ''mode'' (PStr ''pubsub'')
      in if mode = PStr ''pubsub'' then
           (case topic of
              Scalar t \<Rightarrow>
                (let s1 = s\<lparr>subscribers := (subscribers s)
                             (dict_key t := subscribers s (dict_key t) @ [writer])\<rparr>
                 in (Wait Subscribers (dict_key t), replay writer t (queues s1 (dict_key t)) s1))
            | _ \<Rightarrow> (Raise TypeError, s))
         else if mode = PStr ''queue'' then
           (case topic of
              Scalar t \<Rightarrow>
                (let s1 = s\<lparr>ptp_consumers := (ptp_consumers s)
                             (dict_key t := ptp_consumers s (dict_key t) @ [writer])\<rparr>
                 in case notify_ptp_consumer t s1 of
                      (Some e, s2) \<Rightarrow> (Raise e, s2)
                    | (None, s2) \<Rightarrow> (Wait Consumers (dict_key t), s2))
            | _ \<Rightarrow> (Raise TypeError, s))
         else (Next, s))"

text \<open>\<^verbatim>\<open>message.get('message_id') or generate_message_id()\<close>\<close>

definition request_id :: "msgdict \<Rightarrow> string \<Rightarrow> pyval" where
  "request_id message uuid =
     (let given = dict_get message ''message_id'' PNone
      in if truthy given then given else PStr uuid)"

definition handle_request ::
  "(pyval \<Rightarrow> string) \<Rightarrow> writer \<Rightarrow> string \<Rightarrow> data \<Rightarrow> broker \<Rightarrow> control \<times> broker" where
  "handle_request render writer uuid dat s =
     (case parse_message dat of
        Inl e \<Rightarrow> reply writer (make_error e PNone) s
      | Inr (PDict message) \<Rightarrow>
          (let action = dict_get message ''action'' PNone;
               message_id = request_id message uuid
           in if action = PStr ''publish'' then handle_publish writer message_id message s
              else if action = PStr ''subscribe'' then handle_subscribe writer message s
              else if action = PStr ''ack'' then (Next, s)
              else reply writer
                     (make_error (''Unknown action: '' @ py_str render action) message_id) s)
      | Inr _ \<Rightarrow> (Raise AttributeError, s))"

text \<open>
  The \<^verbatim>\<open>finally\<close> block of \<^verbatim>\<open>handle_client\<close>: for every topic whose list has the writer,
  \<^verbatim>\<open>remove\<close> it once; the same for the consumers; then the writer is closed.
\<close>

definition cleanup :: "writer \<Rightarrow> broker \<Rightarrow> broker" where
  "cleanup writer s =
     s\<lparr>subscribers := (\<lambda>topic. if writer \<in> set (subscribers s topic)
                                 then remove1 writer (subscribers s topic)
                                 else subscribers s topic),
       ptp_consumers := (\<lambda>topic. if writer \<in> set (ptp_consumers s topic)
                                   then remove1 writer (ptp_consumers s topic)
                                   else ptp_consumers s topic)\<rparr>"

definition finish :: "writer \<Rightarrow> broker \<Rightarrow> broker" where
  "finish writer s = (cleanup writer s)\<lparr>conn := (conn s)(writer := Closed)\<rparr>"

text \<open>
  What happens to the broker, one event at a time. A request is served as one step:
  what other handlers could do at the \<^verbatim>\<open>await\<close>s inside a request is not modelled. A
  handler takes its next read when it is at the top of its loop, or when the list it
  waits on no longer has its writer (it does not read while it sleeps on the list).
  \<open>Recv\<close> is a read that returns data, \<open>Eof\<close> the empty read that breaks the loop,
  \<open>ReadError\<close> a read that raises, \<open>Cancel\<close> the cancellation of the handler's task
  wherever it is suspended, and \<open>Lost\<close> the loss of the peer, after which writes raise.
  Every way out of the loop goes through the \<^verbatim>\<open>finally\<close> block.
\<close>

datatype event =
    Recv writer string data
  | Eof writer
  | ReadError writer
  | Cancel writer
  | Lost writer

fun runnable :: "broker \<Rightarrow> writer \<Rightarrow> bool" where
  "runnable s w =
     (case conn s w of
        Reading \<Rightarrow> True
      | Waiting Subscribers k \<Rightarrow> w \<notin> set (subscribers s k)
      | Waiting Consumers k \<Rightarrow> w \<notin> set (ptp_consumers s k)
      | Closed \<Rightarrow> False)"

fun step :: "(pyval \<Rightarrow> string) \<Rightarrow> event \<Rightarrow> broker \<Rightarrow> broker option" where
  "step render (Recv w uuid dat) s =
     (if runnable s w then
        (case handle_request render w uuid dat s of
           (Next, s') \<Rightarrow> Some (s'\<lparr>conn := (conn s')(w := Reading)\<rparr>)
         | (Wait r k, s') \<Rightarrow> Some (s'\<lparr>conn := (conn s')(w := Waiting r k)\<rparr>)
         | (Raise e, s') \<Rightarrow> Some (finish w s'))
      else None)"
| "step render (Eof w) s = (if runnable s w then Some (finish w s) else None)"
| "step render (ReadError w) s = (if runnable s w then Some (finish w s) else None)"
| "step render (Cancel w) s = (if conn s w \<noteq> Closed then Some (finish w s) else None)"
| "step render (Lost w) s = Some (s\<lparr>broken := insert w (broken s)\<rparr>)"

fun exec :: "(pyval \<Rightarrow> string) \<Rightarrow> event list \<Rightarrow> broker \<Rightarrow> broker option" where
  "exec render [] s = Some s"
| "exec render (e # es) s =
     (case step render e s of None \<Rightarrow> None | Some s' \<Rightarrow> exec render es s')"

text \<open>What a connection has been sent so far, in order.\<close>

definition received :: "broker \<Rightarrow> writer \<Rightarrow> msgdict list" where
  "received s w = map snd (filter (\<lambda>p. fst p = w) (written s))"

text \<open>
  The broker right after \<^verbatim>\<open>__init__\<close> with the default data directory, which the
  import of \<^verbatim>\<open>persistence\<close> has made and which is the only directory there is, no
  snapshot in it, no connection lost, nothing written yet, every connection still to
  come at its first read.
\<close>

definition new_broker :: broker where
  "new_broker =
     \<lparr>queues = (\<lambda>topic. []), ptp_queues = (\<lambda>topic. []),
      subscribers = (\<lambda>topic. []), ptp_consumers = (\<lambda>topic. []),
      data_dir = ''.msg_data'', dirs = {''.msg_data''}, files = Map.empty,
      broken = {}, written = [],
      conn = (\<lambda>w. Reading)\<rparr>"

section \<open>Example requests and states\<close>



definition subscribe_t1 :: msgdict where
  "subscribe_t1 = [(''action'', PStr ''subscribe''), (''topic'', PStr ''t1''),
                   (''mode'', PStr ''pubsub'')]"

definition enqueue_a :: data where
  "enqueue_a = Decoded (PDict [(''action'', PStr ''publish''), (''topic'', PStr ''q1''),
                               (''message'', PStr ''a''), (''mode'', PStr ''queue'')])"

definition enqueue_b :: data where
  "enqueue_b = Decoded (PDict [(''action'', PStr ''publish''), (''topic'', PStr ''q1''),
                               (''message'', PStr ''b''), (''mode'', PStr ''queue'')])"

definition enqueue_c :: data where
  "enqueue_c = Decoded (PDict [(''action'', PStr ''publish''), (''topic'', PStr ''q1''),
                               (''message'', PStr ''c''), (''mode'', PStr ''queue'')])"

definition consume_q1 :: data where
  "consume_q1 = Decoded (PDict [(''action'', PStr ''subscribe''), (''topic'', PStr ''q1''),
                                (''mode'', PStr ''queue'')])"


definition q1_snapshot :: broker where
  "q1_snapshot = new_broker
     \<lparr>ptp_queues := (\<lambda>topic. [])
         (KStr ''q1'' := [(PStr ''a'', PStr ''id-a''), (PStr ''b'', PStr ''id-b'')]),
      ptp_consumers := (\<lambda>topic. [])(KStr ''q1'' := [7, 8]),
      files := [''.msg_data/queue_q1.json'' \<mapsto>
                  JArr [JArr [JScalar (SStr ''a''), JScalar (SStr ''id-a'')],
                        JArr [JScalar (SStr ''b''), JScalar (SStr ''id-b'')]]],
      broken := {7},
      conn := (\<lambda>w. Reading)(7 := Waiting Consumers (KStr ''q1''),
                                 8 := Waiting Consumers (KStr ''q1''))\<rparr>"

definition q1_live :: broker where
  "q1_live = q1_snapshot\<lparr>broken := {}\<rparr>"

definition slash_queue :: broker where
  "slash_queue = new_broker
     \<lparr>ptp_queues := (\<lambda>topic. [])(KStr ''a/b'' := [(PStr ''m'', PStr ''id-m'')]),
      ptp_consumers := (\<lambda>topic. [])(KStr ''a/b'' := [7])\<rparr>"


section \<open>Paths and files of the examples\<close>

lemma q1_file: "topic_file ''.msg_data'' ''q1'' ''queue'' = ''.msg_data/queue_q1.json''"
  by (simp add: topic_file_def path_join_def)

lemma test_file:
  "topic_file ''.msg_data'' ''testtopic'' ''pubsub'' = ''.msg_data/pubsub_testtopic.json''"
  by (simp add: topic_file_def path_join_def)

lemma slash_test_file:
  "topic_file ''.msg_data'' ''a/b'' ''pubsub'' = ''.msg_data/pubsub_a/b.json''"
  by (simp add: topic_file_def path_join_def)

lemma q1_open: "open_w {''.msg_data''} ''.msg_data/queue_q1.json'' = Inr ()"
  by (simp add: open_w_def dirname_def basename_def)


lemma test_open: "open_w {''.msg_data''} ''.msg_data/pubsub_testtopic.json'' = Inr ()"
  by (simp add: open_w_def dirname_def basename_def)

lemma slash_open: "open_w {''.msg_data''} ''.msg_data/queue_a/b.json'' = Inl OSError"
  by (simp add: open_w_def dirname_def basename_def)

lemma slash_test_open: "open_w {''.msg_data''} ''.msg_data/pubsub_a/b.json'' = Inl OSError"
  by (simp add: open_w_def dirname_def basename_def)

lemma queue_path: "path_join ''.msg_data'' ''queue_q1.json'' = ''.msg_data/queue_q1.json''"
  by (simp add: path_join_def)


lemma slash_queue_path:
  "path_join ''.msg_data'' ''queue_a/b.json'' = ''.msg_data/queue_a/b.json''"
  by (simp add: path_join_def)


section \<open>Writes and snapshots\<close>

lemma send_alive: "w \<notin> broken s \<Longrightarrow> send w m s = Inr (s\<lparr>written := written s @ [(w, m)]\<rparr>)"
  by (simp add: send_def)

lemma send_broken: "w \<in> broken s \<Longrightarrow> send w m s = Inl ConnectionError"
  by (simp add: send_def)

lemma reply_alive:
  "w \<notin> broken s \<Longrightarrow> reply w m s = (Next, s\<lparr>written := written s @ [(w, m)]\<rparr>)"
  by (simp add: reply_def send_def)

lemma reply_broken:
  "w \<in> broken s \<Longrightarrow> reply w m s = (Raise ConnectionError, s)"
  by (simp add: reply_def send_def)

lemma save_ok:
  "open_w ds (topic_file d t m) = Inr () \<Longrightarrow>
   save_messages d t msgs m ds fs = Inr (fs(topic_file d t m \<mapsto> dumps msgs))"
  by (simp add: save_messages_def)

lemma save_fails:
  "open_w ds (topic_file d t m) = Inl e \<Longrightarrow> save_messages d t msgs m ds fs = Inl e"
  by (simp add: save_messages_def)

lemma dumps_entries:
  "dumps (PList (map entry_tuple es)) = JArr (map (\<lambda>e. JArr [dumps (fst e), dumps (snd e)]) es)"
  by (simp add: entry_tuple_def comp_def)

section \<open>The loops written out\<close>



lemma replay_eq:
  "replay w t es s =
     (if w \<in> broken s then s
      else s\<lparr>written := written s @ map (\<lambda>e. (w, delivery t (fst e) (snd e))) es\<rparr>)"
proof (induction es arbitrary: s)
  case Nil
  then show ?case by simp
next
  case (Cons e es)
  obtain m i where e: "e = (m, i)" by (cases e)
  show ?case
    by (simp add: e send_def Cons.IH)
qed

section \<open>The delivery step by cases\<close>

lemma ptp_idle:
  "ptp_queues s (dict_key t) = [] \<or> ptp_consumers s (dict_key t) = [] \<Longrightarrow>
   notify_ptp_consumer t s = (None, s)"
  by (auto simp: notify_ptp_consumer_def split: list.splits)

lemma ptp_failed:
  "ptp_queues s (dict_key t) = (m, i) # pending \<Longrightarrow>
   ptp_consumers s (dict_key t) = c # cs \<Longrightarrow> c \<in> broken s \<Longrightarrow>
   notify_ptp_consumer t s =
     (None, s\<lparr>ptp_queues := (ptp_queues s)(dict_key t := pending),
              ptp_consumers := (ptp_consumers s)(dict_key t := cs)\<rparr>)"
  by (simp add: notify_ptp_consumer_def send_def list_remove_def)

lemma ptp_delivered:
  "ptp_queues s (dict_key t) = (m, i) # pending \<Longrightarrow>
   ptp_consumers s (dict_key t) = c # cs \<Longrightarrow> c \<notin> broken s \<Longrightarrow>
   open_w (dirs s) (topic_file (data_dir s) (str_scalar t) ''queue'') = Inr () \<Longrightarrow>
   notify_ptp_consumer t s =
     (None, s\<lparr>ptp_queues := (ptp_queues s)(dict_key t := pending),
              written := written s @ [(c, delivery t m i)],
              files := (files s)(topic_file (data_dir s) (str_scalar t) ''queue'' \<mapsto>
                         dumps (PList (map entry_tuple pending)))\<rparr>)"
  by (simp add: notify_ptp_consumer_def send_def save_ok)

lemma ptp_unsaved:
  "ptp_queues s (dict_key t) = (m, i) # pending \<Longrightarrow>
   ptp_consumers s (dict_key t) = c # cs \<Longrightarrow> c \<notin> broken s \<Longrightarrow>
   open_w (dirs s) (topic_file (data_dir s) (str_scalar t) ''queue'') = Inl e \<Longrightarrow>
   notify_ptp_consumer t s =
     (None, s\<lparr>ptp_queues := (ptp_queues s)(dict_key t := pending),
              ptp_consumers := (ptp_consumers s)(dict_key t := cs),
              written := written s @ [(c, delivery t m i)]\<rparr>)"
  by (simp add: notify_ptp_consumer_def send_def save_fails list_remove_def)

lemma ptp_cases:
  "notify_ptp_consumer t s =
     (case ptp_queues s (dict_key t) of
        [] \<Rightarrow> (None, s)
      | (m, i) # pending \<Rightarrow>
          (case ptp_consumers s (dict_key t) of
             [] \<Rightarrow> (None, s)
           | c # cs \<Rightarrow>
               if c \<in> broken s
               then (None, s\<lparr>ptp_queues := (ptp_queues s)(dict_key t := pending),
                              ptp_consumers := (ptp_consumers s)(dict_key t := cs)\<rparr>)
               else (case open_w (dirs s) (topic_file (data_dir s) (str_scalar t) ''queue'') of
                       Inr u \<Rightarrow>
                         (None, s\<lparr>ptp_queues := (ptp_queues s)(dict_key t := pending),
                                  written := written s @ [(c, delivery t m i)],
                                  files := (files s)
                                    (topic_file (data_dir s) (str_scalar t) ''queue'' \<mapsto>
                                       dumps (PList (map entry_tuple pending)))\<rparr>)
                     | Inl e \<Rightarrow>
                         (None, s\<lparr>ptp_queues := (ptp_queues s)(dict_key t := pending),
                                  ptp_consumers := (ptp_consumers s)(dict_key t := cs),
                                  written := written s @ [(c, delivery t m i)]\<rparr>))))"
  by (auto simp: ptp_idle ptp_delivered ptp_failed ptp_unsaved split: list.splits sum.splits)

lemma ptp_never_raises: "fst (notify_ptp_consumer t s) = None"
  by (simp add: ptp_cases split: list.splits sum.splits)

lemma ptp_keeps_dirs:
  "dirs (snd (notify_ptp_consumer t s)) = dirs s"
  "data_dir (snd (notify_ptp_consumer t s)) = data_dir s"
  "broken (snd (notify_ptp_consumer t s)) = broken s"
  by (simp_all add: ptp_cases split: list.splits sum.splits)

section \<open>Requests by cases\<close>

lemma dict_get_simps [simp]:
  "dict_get [] k d = d"
  "dict_get ((k', v) # kvs) k d = (if k = k' then v else dict_get kvs k d)"
  by (simp_all add: dict_get_def)



lemma publish_queue:
  assumes "dict_get req ''mode'' (PStr ''pubsub'') = PStr ''queue''"
      and "dict_get req ''topic'' PNone = Scalar t"
  shows "handle_publish w mid req s =
     (let s1 = s\<lparr>ptp_queues := (ptp_queues s)
             (dict_key t := ptp_queues s (dict_key t) @ [(dict_get req ''message'' PNone, mid)])\<rparr>;
          s2 = snd (notify_ptp_consumer t s1)
      in case open_w (dirs s) (topic_file (data_dir s) (str_scalar t) ''queue'') of
           Inr u \<Rightarrow>
             reply w (make_ack mid)
               (s2\<lparr>files := (files s2)(topic_file (data_dir s) (str_scalar t) ''queue'' \<mapsto>
                   dumps (PList (map entry_tuple (ptp_queues s2 (dict_key t)))))\<rparr>)
         | Inl e \<Rightarrow> (Raise e, s2))"
proof -
  define s1 where "s1 = s\<lparr>ptp_queues := (ptp_queues s)
             (dict_key t := ptp_queues s (dict_key t) @ [(dict_get req ''message'' PNone, mid)])\<rparr>"
  obtain s2 where s2: "notify_ptp_consumer t s1 = (None, s2)"
    using ptp_never_raises [of t s1] by (cases "notify_ptp_consumer t s1") simp
  have "snd (notify_ptp_consumer t s1) = s2"
    by (simp add: s2)
  then have keep: "dirs s2 = dirs s" "data_dir s2 = data_dir s"
    using ptp_keeps_dirs(1,2) [of t s1] by (simp_all add: s1_def)
  show ?thesis
  proof (cases "open_w (dirs s) (topic_file (data_dir s) (str_scalar t) ''queue'')")
    case (Inl e)
    then show ?thesis
      using assms s2 keep
      by (simp add: handle_publish_def Let_def s1_def [symmetric] save_fails)
  next
    case (Inr u)
    then show ?thesis
      using assms s2 keep
      by (simp add: handle_publish_def Let_def s1_def [symmetric] save_ok)
  qed
qed

lemma publish_other:
  assumes "dict_get req ''mode'' (PStr ''pubsub'') \<noteq> PStr ''pubsub''"
      and "dict_get req ''mode'' (PStr ''pubsub'') \<noteq> PStr ''queue''"
  shows "handle_publish w mid req s = reply w (make_ack mid) s"
  using assms by (simp add: handle_publish_def Let_def)

lemma publish_unhashable:
  assumes "dict_get req ''mode'' (PStr ''pubsub'') = PStr ''pubsub'' \<or>
           dict_get req ''mode'' (PStr ''pubsub'') = PStr ''queue''"
      and "\<forall>t. dict_get req ''topic'' PNone \<noteq> Scalar t"
  shows "handle_publish w mid req s = (Raise TypeError, s)"
  using assms by (auto simp: handle_publish_def Let_def split: pyval.splits)

lemma subscribe_pubsub:
  assumes "dict_get req ''mode'' (PStr ''pubsub'') = PStr ''pubsub''"
      and "dict_get req ''topic'' PNone = Scalar t"
  shows "handle_subscribe w req s =
     (Wait Subscribers (dict_key t),
      replay w t (queues s (dict_key t))
        (s\<lparr>subscribers := (subscribers s)
             (dict_key t := subscribers s (dict_key t) @ [w])\<rparr>))"
  using assms by (simp add: handle_subscribe_def Let_def)

lemma subscribe_queue:
  assumes "dict_get req ''mode'' (PStr ''pubsub'') = PStr ''queue''"
      and "dict_get req ''topic'' PNone = Scalar t"
  shows "handle_subscribe w req s =
     (Wait Consumers (dict_key t),
      snd (notify_ptp_consumer t
        (s\<lparr>ptp_consumers := (ptp_consumers s)
             (dict_key t := ptp_consumers s (dict_key t) @ [w])\<rparr>)))"
proof -
  define s1 where "s1 = s\<lparr>ptp_consumers := (ptp_consumers s)
             (dict_key t := ptp_consumers s (dict_key t) @ [w])\<rparr>"
  obtain s2 where s2: "notify_ptp_consumer t s1 = (None, s2)"
    using ptp_never_raises [of t s1] by (cases "notify_ptp_consumer t s1") simp
  show ?thesis
    using assms s2 by (simp add: handle_subscribe_def Let_def s1_def [symmetric])
qed

lemma subscribe_other:
  assumes "dict_get req ''mode'' (PStr ''pubsub'') \<noteq> PStr ''pubsub''"
      and "dict_get req ''mode'' (PStr ''pubsub'') \<noteq> PStr ''queue''"
  shows "handle_subscribe w req s = (Next, s)"
  using assms by (simp add: handle_subscribe_def Let_def)

lemma subscribe_unhashable:
  assumes "dict_get req ''mode'' (PStr ''pubsub'') = PStr ''pubsub'' \<or>
           dict_get req ''mode'' (PStr ''pubsub'') = PStr ''queue''"
      and "\<forall>t. dict_get req ''topic'' PNone \<noteq> Scalar t"
  shows "handle_subscribe w req s = (Raise TypeError, s)"
  using assms by (auto simp: handle_subscribe_def Let_def split: pyval.splits)

lemma recv_defined: "runnable s w \<Longrightarrow> \<exists>s'. step r (Recv w u d) s = Some s'"
  by (auto split: prod.splits control.splits)



section \<open>The example states\<close>

lemma new_fields:
  "queues new_broker = (\<lambda>topic. [])" "subscribers new_broker = (\<lambda>topic. [])"
  "ptp_queues new_broker = (\<lambda>topic. [])" "ptp_consumers new_broker = (\<lambda>topic. [])"
  "broken new_broker = {}" "written new_broker = []" "conn new_broker = (\<lambda>w. Reading)"
  "data_dir new_broker = ''.msg_data''" "dirs new_broker = {''.msg_data''}"
  "files new_broker = Map.empty"
  by (simp_all add: new_broker_def)


lemma q1_fields:
  "ptp_queues q1_snapshot (KStr ''q1'') = [(PStr ''a'', PStr ''id-a''), (PStr ''b'', PStr ''id-b'')]"
  "ptp_consumers q1_snapshot (KStr ''q1'') = [7, 8]"
  "broken q1_snapshot = {7}" "written q1_snapshot = []" "data_dir q1_snapshot = ''.msg_data''"
  "dirs q1_snapshot = {''.msg_data''}"
  "files q1_snapshot = [''.msg_data/queue_q1.json'' \<mapsto>
                  JArr [JArr [JScalar (SStr ''a''), JScalar (SStr ''id-a'')],
                        JArr [JScalar (SStr ''b''), JScalar (SStr ''id-b'')]]]"
  by (simp_all add: q1_snapshot_def new_broker_def)


lemma q1_live_fields:
  "ptp_queues q1_live (KStr ''q1'') = [(PStr ''a'', PStr ''id-a''), (PStr ''b'', PStr ''id-b'')]"
  "ptp_consumers q1_live (KStr ''q1'') = [7, 8]"
  "broken q1_live = {}" "written q1_live = []" "data_dir q1_live = ''.msg_data''"
  "dirs q1_live = {''.msg_data''}"
  by (simp_all add: q1_live_def q1_fields)

lemma slash_fields:
  "ptp_queues slash_queue (KStr ''a/b'') = [(PStr ''m'', PStr ''id-m'')]"
  "ptp_consumers slash_queue (KStr ''a/b'') = [7]"
  "broken slash_queue = {}" "written slash_queue = []" "data_dir slash_queue = ''.msg_data''"
  "dirs slash_queue = {''.msg_data''}"
  by (simp_all add: slash_queue_def new_broker_def)

section \<open>Point-to-point queues\<close>

text \<open>
  Claim C1, on the code. Two messages \<open>a\<close> and \<open>b\<close> are enqueued on \<open>q1\<close> while nobody
  consumes; then connection 2 registers as consumer. The handler calls the delivery
  step once: the consumer is sent \<open>a\<close> and nothing else, \<open>b\<close> stays in the pending
  FIFO, and the handler sleeps in its wait loop. A later publish of \<open>c\<close> to the queue
  runs the next delivery step: the consumer is sent \<open>b\<close>, and now \<open>c\<close> is the message
  that stays behind.
\<close>

theorem consumer_gets_one_message:
  "\<exists>s s'. exec (\<lambda>v. []) [Recv 1 ''id-a'' enqueue_a, Recv 1 ''id-b'' enqueue_b,
                          Recv 2 ''id-x'' consume_q1] new_broker = Some s
       \<and> received s 2 = [delivery (SStr ''q1'') (PStr ''a'') (PStr ''id-a'')]
       \<and> ptp_queues s (KStr ''q1'') = [(PStr ''b'', PStr ''id-b'')]
       \<and> ptp_consumers s (KStr ''q1'') = [2]
       \<and> conn s 2 = Waiting Consumers (KStr ''q1'')
       \<and> step (\<lambda>v. []) (Recv 1 ''id-c'' enqueue_c) s = Some s'
       \<and> received s' 2 = [delivery (SStr ''q1'') (PStr ''a'') (PStr ''id-a''),
                           delivery (SStr ''q1'') (PStr ''b'') (PStr ''id-b'')]
       \<and> ptp_queues s' (KStr ''q1'') = [(PStr ''c'', PStr ''id-c'')]"
  by (simp add: enqueue_a_def enqueue_b_def enqueue_c_def consume_q1_def handle_request_def
      request_id_def publish_queue subscribe_queue ptp_cases reply_alive new_broker_def
      received_def Let_def q1_file q1_open)

text \<open>
  Claim C2. The delivery step changes nothing unless the pending FIFO and the consumer
  list of the queue are both non-empty. Otherwise it pops the head message and writes
  it to the first consumer of the list, as the record with the keys \<^verbatim>\<open>type\<close>, \<^verbatim>\<open>topic\<close>,
  \<^verbatim>\<open>message\<close> and \<^verbatim>\<open>message_id\<close>. When that write fails, the first consumer is removed
  from the list, nothing is written or saved, and the FIFO keeps only the rest: the
  popped message is not put back. When the write succeeds and the snapshot file of
  the queue can be opened, the rest of the FIFO is saved and the consumer stays
  first in the list. When the write succeeds but the snapshot file cannot be opened
  (a queue named \<^verbatim>\<open>a/b\<close>, for one), the exception of \<^verbatim>\<open>save_messages\<close> is caught by the same
  handler: the consumer that was just served is removed from the list and no file is
  written. In no case does the step raise.
\<close>

theorem ptp_delivery_step:
  "(ptp_queues s (dict_key topic) = [] \<or> ptp_consumers s (dict_key topic) = [] \<longrightarrow>
      notify_ptp_consumer topic s = (None, s))
   \<and> (\<forall>msg message_id pending consumer others.
        ptp_queues s (dict_key topic) = (msg, message_id) # pending \<and>
        ptp_consumers s (dict_key topic) = consumer # others \<longrightarrow>
        (consumer \<in> broken s \<longrightarrow>
           notify_ptp_consumer topic s =
             (None, s\<lparr>ptp_queues := (ptp_queues s)(dict_key topic := pending),
                      ptp_consumers := (ptp_consumers s)(dict_key topic := others)\<rparr>)) \<and>
        (consumer \<notin> broken s \<and>
         open_w (dirs s) (path_join (data_dir s) (''queue_'' @ str_scalar topic @ ''.json''))
           = Inr () \<longrightarrow>
           notify_ptp_consumer topic s =
             (None, s\<lparr>ptp_queues := (ptp_queues s)(dict_key topic := pending),
                      written := written s @
                        [(consumer, [(''type'', PStr ''message''), (''topic'', Scalar topic),
                                     (''message'', msg), (''message_id'', message_id)])],
                      files := (files s)
                        (path_join (data_dir s) (''queue_'' @ str_scalar topic @ ''.json'') \<mapsto>
                           JArr (map (\<lambda>e. JArr [dumps (fst e), dumps (snd e)]) pending))\<rparr>)) \<and>
        (\<forall>e. consumer \<notin> broken s \<and>
         open_w (dirs s) (path_join (data_dir s) (''queue_'' @ str_scalar topic @ ''.json''))
           = Inl e \<longrightarrow>
           notify_ptp_consumer topic s =
             (None, s\<lparr>ptp_queues := (ptp_queues s)(dict_key topic := pending),
                      ptp_consumers := (ptp_consumers s)(dict_key topic := others),
                      written := written s @
                        [(consumer, [(''type'', PStr ''message''), (''topic'', Scalar topic),
                                     (''message'', msg), (''message_id'', message_id)])]\<rparr>)))"
  using ptp_idle [of s topic]
  by (auto simp: ptp_delivered ptp_failed ptp_unsaved delivery_def dumps_entries
      topic_file_def simp del: dumps.simps)

theorem ptp_delivery_step_witness:
  "notify_ptp_consumer (SStr ''q1'') q1_snapshot =
     (None, q1_snapshot\<lparr>ptp_queues := (ptp_queues q1_snapshot)(KStr ''q1'' := [(PStr ''b'', PStr ''id-b'')]),
                       ptp_consumers := (ptp_consumers q1_snapshot)(KStr ''q1'' := [8])\<rparr>)
   \<and> notify_ptp_consumer (SStr ''q1'') q1_live =
     (None, q1_live\<lparr>ptp_queues := (ptp_queues q1_live)(KStr ''q1'' := [(PStr ''b'', PStr ''id-b'')]),
          written := [(7, [(''type'', PStr ''message''), (''topic'', PStr ''q1''),
                           (''message'', PStr ''a''), (''message_id'', PStr ''id-a'')])],
          files := (files q1_live)(''.msg_data/queue_q1.json'' \<mapsto>
                      JArr [JArr [JScalar (SStr ''b''), JScalar (SStr ''id-b'')]])\<rparr>)
   \<and> notify_ptp_consumer (SStr ''a/b'') slash_queue =
     (None, slash_queue\<lparr>ptp_queues := (ptp_queues slash_queue)(KStr ''a/b'' := []),
          ptp_consumers := (ptp_consumers slash_queue)(KStr ''a/b'' := []),
          written := [(7, [(''type'', PStr ''message''), (''topic'', PStr ''a/b''),
                           (''message'', PStr ''m''), (''message_id'', PStr ''id-m'')])]\<rparr>)
   \<and> notify_ptp_consumer (SStr ''q1'') new_broker = (None, new_broker)"
  using ptp_delivery_step [of q1_snapshot "SStr ''q1''"] ptp_delivery_step [of q1_live "SStr ''q1''"]
    ptp_delivery_step [of slash_queue "SStr ''a/b''"] ptp_delivery_step [of new_broker "SStr ''q1''"]
  by (simp add: q1_fields q1_live_fields slash_fields new_fields queue_path q1_open
      slash_queue_path slash_open)




section \<open>Publish and subscribe\<close>





text \<open>
  Claim C10. A publish request whose mode is neither \<^verbatim>\<open>pubsub\<close> nor \<^verbatim>\<open>queue\<close>, sent on
  a good connection, changes no backlog, no queue, no subscriber or consumer list and
  no file: the only effect is the acknowledgment written to the sender, with the id of
  the request (the one it carried, or the generated one).
\<close>

theorem publish_unknown_mode:
  assumes "dict_get req ''action'' PNone = PStr ''publish''"
      and "dict_get req ''mode'' (PStr ''pubsub'') \<noteq> PStr ''pubsub''"
      and "dict_get req ''mode'' (PStr ''pubsub'') \<noteq> PStr ''queue''"
      and "writer \<notin> broken s"
  shows "handle_request render writer uuid (Decoded (PDict req)) s =
           (Next, s\<lparr>written := written s @
              [(writer, [(''type'', PStr ''ack''), (''message_id'', request_id req uuid)])]\<rparr>)"
  using assms by (simp add: handle_request_def publish_other reply_alive make_ack_def)

theorem publish_unknown_mode_witness:
  "handle_request (\<lambda>v. []) 1 ''id1''
     (Decoded (PDict [(''action'', PStr ''publish''), (''topic'', PStr ''t1''),
                      (''message'', PStr ''hello''), (''mode'', PStr ''broadcast'')])) new_broker =
   (Next, new_broker\<lparr>written := [(1, [(''type'', PStr ''ack''), (''message_id'', PStr ''id1'')])]\<rparr>)"
  using publish_unknown_mode [where writer = 1 and s = new_broker and uuid = "''id1''"
      and render = "\<lambda>v. []"
      and req = "[(''action'', PStr ''publish''), (''topic'', PStr ''t1''),
                      (''message'', PStr ''hello''), (''mode'', PStr ''broadcast'')]"]
  by (simp add: request_id_def new_broker_def)

section \<open>Errors\<close>

text \<open>
  Claim C7. When the bytes read from a good connection do not decode, the handler
  writes an error record with the keys \<^verbatim>\<open>type\<close> and \<^verbatim>\<open>error\<close> and no \<^verbatim>\<open>message_id\<close>,
  changes nothing else, and goes on with its loop: the connection is at its next read
  and every further request on it is handled.
\<close>

theorem malformed_request:
  assumes "runnable s w" and "w \<notin> broken s"
  shows "\<exists>s'. step render (Recv w uuid (Undecodable why)) s = Some s'
           \<and> s' = s\<lparr>written := written s @
                  [(w, [(''type'', PStr ''error''),
                        (''error'', PStr (''Invalid message format: '' @ why))])],
                 conn := (conn s)(w := Reading)\<rparr>
           \<and> map_of (snd (last (written s'))) ''message_id'' = None
           \<and> runnable s' w
           \<and> (\<forall>uuid' dat. step render (Recv w uuid' dat) s' \<noteq> None)"
proof -
  have "handle_request render w uuid (Undecodable why) s =
      (Next, s\<lparr>written := written s @
                  [(w, [(''type'', PStr ''error''),
                        (''error'', PStr (''Invalid message format: '' @ why))])]\<rparr>)"
    using assms(2) by (simp add: handle_request_def reply_alive make_error_def)
  then show ?thesis
    using assms(1) by (auto split: prod.splits control.splits)
qed

theorem malformed_request_witness:
  "\<exists>s'. step (\<lambda>v. []) (Recv 1 ''id1'' (Undecodable ''Expecting value'')) new_broker = Some s'
      \<and> written s' = [(1, [(''type'', PStr ''error''),
              (''error'', PStr ''Invalid message format: Expecting value'')])]
      \<and> runnable s' 1"
proof -
  have "\<exists>s'. step (\<lambda>v. []) (Recv 1 ''id1'' (Undecodable ''Expecting value'')) new_broker = Some s'
           \<and> s' = new_broker\<lparr>written := written new_broker @
                  [(1, [(''type'', PStr ''error''),
                        (''error'', PStr (''Invalid message format: '' @ ''Expecting value''))])],
                 conn := (conn new_broker)(1 := Reading)\<rparr>
           \<and> map_of (snd (last (written s'))) ''message_id'' = None
           \<and> runnable s' 1
           \<and> (\<forall>uuid' dat. step (\<lambda>v. []) (Recv 1 uuid' dat) s' \<noteq> None)"
    by (rule malformed_request) (simp_all add: new_broker_def)
  then show ?thesis
    by (auto simp: new_broker_def simp del: step.simps)
qed

text \<open>
  Claim C8, as the code has it. A request that decodes to an object whose action is
  not \<^verbatim>\<open>publish\<close>, \<^verbatim>\<open>subscribe\<close> or \<^verbatim>\<open>ack\<close>, sent on a good connection, is answered
  with an error record that always has a \<^verbatim>\<open>message_id\<close>: the one of the request when
  the request has a truthy one, the freshly generated id otherwise. (The generated id
  is the text of a UUID, hence not empty.)
\<close>

theorem unknown_action_error:
  assumes "dict_get req ''action'' PNone \<noteq> PStr ''publish''"
      and "dict_get req ''action'' PNone \<noteq> PStr ''subscribe''"
      and "dict_get req ''action'' PNone \<noteq> PStr ''ack''"
      and "writer \<notin> broken s"
      and "uuid \<noteq> []"
  shows "handle_request render writer uuid (Decoded (PDict req)) s =
           (Next, s\<lparr>written := written s @
              [(writer, [(''type'', PStr ''error''),
                         (''error'', PStr (''Unknown action: '' @
                             py_str render (dict_get req ''action'' PNone))),
                         (''message_id'',
                            (if truthy (dict_get req ''message_id'' PNone)
                             then dict_get req ''message_id'' PNone
                             else PStr uuid))])]\<rparr>)"
proof -
  have "truthy (request_id req uuid)"
    using assms(5) by (simp add: request_id_def Let_def)
  then show ?thesis
    using assms(1-4)
    by (simp add: handle_request_def reply_alive make_error_def Let_def)
       (simp add: request_id_def Let_def)
qed

theorem unknown_action_error_witness:
  "handle_request (\<lambda>v. []) 1 ''4f2c''
     (Decoded (PDict [(''action'', PStr ''dance''), (''message_id'', PStr ''m-17'')])) new_broker =
   (Next, new_broker\<lparr>written := [(1, [(''type'', PStr ''error''),
       (''error'', PStr ''Unknown action: dance''), (''message_id'', PStr ''m-17'')])]\<rparr>)"
  using unknown_action_error [where writer = 1 and s = new_broker and uuid = "''4f2c''"
      and render = "\<lambda>v. []"
      and req = "[(''action'', PStr ''dance''), (''message_id'', PStr ''m-17'')]"]
  by (simp add: new_broker_def)

text \<open>
  The claim as stated fails for a request without a message id: the error record
  carries the generated id.
\<close>

theorem unknown_action_error_counterexample:
  "dict_get [(''action'', PStr ''dance'')] ''message_id'' PNone = PNone
   \<and> written (snd (handle_request (\<lambda>v. []) 1 ''4f2c'' (Decoded (PDict [(''action'', PStr ''dance'')]))
        new_broker))
     = [(1, [(''type'', PStr ''error''), (''error'', PStr ''Unknown action: dance''),
             (''message_id'', PStr ''4f2c'')])]"
  by (simp add: handle_request_def dict_get_def request_id_def reply_def send_def
      make_error_def new_broker_def)

section \<open>A connection that ends while it is registered\<close>

text \<open>
  Claim C5, on the code. Connection 7 registers as consumer of \<open>q1\<close> and its peer goes
  away. The handler is in the wait loop that follows the registration and takes no
  read while its writer is in the list, so neither the end of the stream nor a read
  error is ever seen and the \<^verbatim>\<open>finally\<close> block does not run: the writer stays first in
  the consumer list. The next publish to the queue runs the delivery step, which pops
  the message and writes it to that writer; the write fails, the message is lost
  (the FIFO and the snapshot are empty, the consumer was sent nothing), and only this
  failure removes the writer from the list. Only then does the handler read again and
  leave. A subscriber of a topic whose peer goes away stays in the subscriber list in
  the same way.
\<close>

theorem disconnected_consumer_stays_registered:
  "\<exists>s s' t.
       exec (\<lambda>v. []) [Recv 7 ''u7'' consume_q1, Lost 7] new_broker = Some s
     \<and> ptp_consumers s (KStr ''q1'') = [7]
     \<and> conn s 7 = Waiting Consumers (KStr ''q1'')
     \<and> step (\<lambda>v. []) (Eof 7) s = None
     \<and> step (\<lambda>v. []) (ReadError 7) s = None
     \<and> step (\<lambda>v. []) (Recv 1 ''id-a'' enqueue_a) s = Some s'
     \<and> ptp_queues s' (KStr ''q1'') = []
     \<and> received s' 7 = []
     \<and> ptp_consumers s' (KStr ''q1'') = []
     \<and> files s' ''.msg_data/queue_q1.json'' = Some (JArr [])
     \<and> step (\<lambda>v. []) (Eof 7) s' = Some (finish 7 s')
     \<and> exec (\<lambda>v. []) [Recv 5 ''u5'' (Decoded (PDict subscribe_t1)), Lost 5] new_broker = Some t
     \<and> subscribers t (KStr ''t1'') = [5]
     \<and> step (\<lambda>v. []) (Eof 5) t = None
     \<and> step (\<lambda>v. []) (ReadError 5) t = None"
  by (simp add: enqueue_a_def consume_q1_def subscribe_t1_def handle_request_def
      request_id_def publish_queue subscribe_queue subscribe_pubsub replay_eq ptp_cases
      reply_alive new_broker_def received_def Let_def q1_file q1_open entry_tuple_def)

section \<open>Snapshot round trip\<close>

text \<open>
  Claim C6, on the code. The list of the repository's test is saved for the topic
  \<open>testtopic\<close> and loaded again: \<^verbatim>\<open>load_messages\<close> returns each pair as a two-element
  list, not as the tuple that was saved and that its docstring and return annotation
  promise, so the value loaded differs from the value saved. For the topic \<^verbatim>\<open>a/b\<close> the
  snapshot file lies in a directory that does not exist: \<^verbatim>\<open>save_messages\<close> raises and a
  later \<^verbatim>\<open>load_messages\<close> returns the empty list.
\<close>

theorem load_after_save_returns_lists:
  "save_messages ''.msg_data'' ''testtopic''
       (PList [PTuple [PStr ''msg1'', PStr ''id1''], PTuple [PStr ''msg2'', PStr ''id2'']])
       ''pubsub'' {''.msg_data''} Map.empty =
     Inr [''.msg_data/pubsub_testtopic.json'' \<mapsto>
            JArr [JArr [JScalar (SStr ''msg1''), JScalar (SStr ''id1'')],
                  JArr [JScalar (SStr ''msg2''), JScalar (SStr ''id2'')]]]
   \<and> load_messages ''.msg_data'' ''testtopic'' ''pubsub'' {''.msg_data''}
       [''.msg_data/pubsub_testtopic.json'' \<mapsto>
            JArr [JArr [JScalar (SStr ''msg1''), JScalar (SStr ''id1'')],
                  JArr [JScalar (SStr ''msg2''), JScalar (SStr ''id2'')]]] =
     Inr (PList [PList [PStr ''msg1'', PStr ''id1''], PList [PStr ''msg2'', PStr ''id2'']])
   \<and> PList [PList [PStr ''msg1'', PStr ''id1''], PList [PStr ''msg2'', PStr ''id2'']] \<noteq>
     PList [PTuple [PStr ''msg1'', PStr ''id1''], PTuple [PStr ''msg2'', PStr ''id2'']]
   \<and> save_messages ''.msg_data'' ''a/b''
       (PList [PTuple [PStr ''msg1'', PStr ''id1'']]) ''pubsub'' {''.msg_data''} Map.empty =
     Inl OSError
   \<and> load_messages ''.msg_data'' ''a/b'' ''pubsub'' {''.msg_data''} Map.empty = Inr (PList [])"
  by (simp add: save_messages_def load_messages_def test_file test_open slash_test_file
      slash_test_open)

end
